theory Spec2Isabelle
  imports Complex_Main "HOL-Library.Multiset" "HOL-Library.Char_ord" "HOL-Library.List_Lexorder"
    "HOL-Library.Sublist"
begin

section \<open>Data model of tracker.py\<close>

text \<open>
  The two SQLite tables of \<open>Database.init_database\<close> are lists of rows in insertion
  (rowid) order. \<open>INTEGER PRIMARY KEY AUTOINCREMENT\<close> is a counter holding the largest
  id ever handed out: a new row gets the counter plus one, and a deleted id is never used
  again. A calendar date is its day number (an integer: the order of the ISO strings that
  SQLite stores is the order of the days), a point in time is a number of microseconds,
  and the \<open>REAL\<close> amounts are real numbers (the arithmetic of the binary floats is
  idealised: sums, quotients and comparisons are exact).
\<close>

type_synonym date = int
type_synonym timestamp = int

record user_row =
  u_id :: int
  u_username :: string
  u_password_hash :: string
  u_email :: string
  u_created_at :: timestamp

record expense_row =
  e_id :: int
  e_user_id :: int
  e_date :: date
  e_category :: string
  e_amount :: real
  e_description :: string
  e_created_at :: timestamp

record database =
  users :: "user_row list"
  users_seq :: int
  expenses :: "expense_row list"
  expenses_seq :: int

definition init_database :: database where
  "init_database = \<lparr>users = [], users_seq = 0, expenses = [], expenses_seq = 0\<rparr>"

text \<open>
  What SQLite keeps true of the \<open>expenses\<close> table: the ids are pairwise different and
  none exceeds the counter.
\<close>

definition expenses_ok :: "database \<Rightarrow> bool" where
  "expenses_ok db \<longleftrightarrow>
     distinct (map e_id (expenses db)) \<and> list_all (\<lambda>r. e_id r \<le> expenses_seq db) (expenses db)"

text \<open>A row of the data frame that \<open>get_expenses\<close> returns: the selected columns only
  (\<open>user_id\<close> is not among them), \<open>date\<close> already converted by \<open>pd.to_datetime\<close>.\<close>

record expense =
  df_id :: int
  date :: timestamp
  category :: string
  amount :: real
  description :: string
  created_at :: timestamp

definition usec_per_day :: int where
  "usec_per_day = 86400000000"

definition to_datetime :: "date \<Rightarrow> timestamp" where
  "to_datetime d = d * usec_per_day"

definition dt_date :: "timestamp \<Rightarrow> date" where
  "dt_date t = t div usec_per_day"

definition select_columns :: "expense_row \<Rightarrow> expense" where
  "select_columns r =
     \<lparr>df_id = e_id r, date = to_datetime (e_date r), category = e_category r,
      amount = e_amount r, description = e_description r, created_at = e_created_at r\<rparr>"

section \<open>ExpenseTracker: the record store\<close>

text \<open>
  \<open>ExpenseTracker.add_expense\<close>: one \<open>INSERT\<close>, no check of any argument, and the
  return value is \<open>True\<close>. Foreign keys are not enforced by SQLite unless switched on,
  which the program never does, so the insertion has no failing branch.
\<close>

definition add_expense ::
  "database \<Rightarrow> int \<Rightarrow> timestamp \<Rightarrow> date \<Rightarrow> string \<Rightarrow> real \<Rightarrow> string \<Rightarrow> database \<times> bool" where
  "add_expense db user_id now d cat amt descr =
     (let new_id = expenses_seq db + 1;
          row = \<lparr>e_id = new_id, e_user_id = user_id, e_date = d, e_category = cat,
                 e_amount = amt, e_description = descr, e_created_at = now\<rparr>
      in (db\<lparr>expenses := expenses db @ [row], expenses_seq := new_id\<rparr>, True))"

text \<open>
  The "Add Expense" page of \<open>main\<close>, after the form is submitted: the only caller of
  \<open>add_expense\<close>, and the only place where the amount is compared with zero.
\<close>

datatype notice = Success real string | Error string

definition add_expense_page ::
  "database \<Rightarrow> int \<Rightarrow> timestamp \<Rightarrow> date \<Rightarrow> string \<Rightarrow> real \<Rightarrow> string \<Rightarrow> database \<times> notice" where
  "add_expense_page db user_id now d cat amt descr =
     (if amt > 0 then (fst (add_expense db user_id now d cat amt descr), Success amt cat)
      else (db, Error ''Amount must be greater than 0''))"

text \<open>
  \<open>ExpenseTracker.get_expenses\<close>: the caller's rows, newest date first. Rows of one
  date are kept in rowid order; nothing below depends on the order among equal dates.
\<close>

definition get_expenses :: "database \<Rightarrow> int \<Rightarrow> expense list" where
  "get_expenses db user_id =
     map select_columns
       (sort_key (\<lambda>r. - e_date r) (filter (\<lambda>r. e_user_id r = user_id) (expenses db)))"

text \<open>
  \<open>ExpenseTracker.delete_expense\<close>: \<open>DELETE ... WHERE id = ? AND user_id = ?\<close>, and the
  result is whether \<open>cursor.rowcount\<close> is positive.
\<close>

definition delete_expense :: "database \<Rightarrow> int \<Rightarrow> int \<Rightarrow> database \<times> bool" where
  "delete_expense db user_id expense_id =
     (let hit = (\<lambda>r. e_id r = expense_id \<and> e_user_id r = user_id);
          affected = length (filter hit (expenses db))
      in (db\<lparr>expenses := filter (\<lambda>r. \<not> hit r) (expenses db)\<rparr>, affected > 0))"

section \<open>Query engine\<close>

text \<open>
  \<open>ExpenseTracker.get_filtered_expenses\<close>. Both tests are Python truth tests: the
  category filter runs when \<open>filter_category\<close> is neither \<open>None\<close> nor the empty
  string and differs from \<open>'All'\<close>; the recency filter runs when \<open>days\<close> is neither
  \<open>None\<close> nor zero. \<open>now\<close> is the value of \<open>datetime.now()\<close>. \<open>filter_frame\<close> is
  the body of the method after the frame has been fetched.
\<close>

definition timedelta_days :: "int \<Rightarrow> timestamp" where
  "timedelta_days n = n * usec_per_day"

definition filter_frame ::
  "expense list \<Rightarrow> string option \<Rightarrow> int option \<Rightarrow> timestamp \<Rightarrow> expense list" where
  "filter_frame df filter_category days now =
     (if df \<noteq> [] then
        (let df1 = (case filter_category of
                      None \<Rightarrow> df
                    | Some c \<Rightarrow> if c \<noteq> [] \<and> c \<noteq> ''All''
                               then filter (\<lambda>r. category r = c) df else df);
             df2 = (case days of
                      None \<Rightarrow> df1
                    | Some n \<Rightarrow> if n \<noteq> 0
                               then filter (\<lambda>r. date r \<ge> now - timedelta_days n) df1 else df1)
         in df2)
      else df)"

definition get_filtered_expenses ::
  "database \<Rightarrow> int \<Rightarrow> string option \<Rightarrow> int option \<Rightarrow> timestamp \<Rightarrow> expense list" where
  "get_filtered_expenses db user_id filter_category days now =
     filter_frame (get_expenses db user_id) filter_category days now"

text \<open>When each of the two filters of \<open>filter_frame\<close> is switched on.\<close>

definition category_active :: "string option \<Rightarrow> bool" where
  "category_active fc \<longleftrightarrow> (case fc of None \<Rightarrow> False | Some c \<Rightarrow> c \<noteq> [] \<and> c \<noteq> ''All'')"

definition days_active :: "int option \<Rightarrow> bool" where
  "days_active days \<longleftrightarrow> (case days of None \<Rightarrow> False | Some n \<Rightarrow> n \<noteq> 0)"

section \<open>Aggregation engine\<close>

text \<open>
  \<open>ExpenseTracker.get_category_summary\<close>. \<open>groupby('category')\<close> yields one row per
  category in ascending order of the key, \<open>agg(['sum', 'count'])\<close> its total and its
  number of rows.

  The percentage is computed in binary floating point, and its last digit depends on that:
  \<open>Total / Total.sum() * 100\<close> is a division and a multiplication of doubles, each
  rounded to the nearest double, and \<open>round(2)\<close> is numpy's rounding, which multiplies
  by 100, takes \<open>rint\<close> (halves go to the even neighbour) and divides by 100, again in
  doubles. \<open>float64 x\<close> is the double nearest to \<open>x\<close>, halves to the even mantissa;
  the range of the exponent is taken as unbounded (no overflow, no subnormal numbers).
  Where the sum of the totals is zero numpy yields nan or an infinity, which is \<open>None\<close>
  here. The sums themselves are exact.
\<close>

record summary_row =
  s_category :: string
  Total :: real
  Count :: nat
  Percentage :: "real option"

definition rint :: "real \<Rightarrow> int" where
  "rint x =
     (let f = \<lfloor>x\<rfloor>; d = x - of_int f
      in if d < 1 / 2 then f else if d > 1 / 2 then f + 1 else if even f then f else f + 1)"

definition float64 :: "real \<Rightarrow> real" where
  "float64 x =
     (if x = 0 then 0
      else (let e = \<lfloor>log 2 \<bar>x\<bar>\<rfloor> - 52
            in of_int (rint (x / 2 powr of_int e)) * 2 powr of_int e))"

definition round2 :: "real \<Rightarrow> real" where
  "round2 x = float64 (of_int (rint (float64 (x * 100))) / 100)"

definition percentage :: "real \<Rightarrow> real \<Rightarrow> real option" where
  "percentage t s =
     (if s = 0 then None else Some (round2 (float64 (float64 (t / s) * 100))))"

definition groupby_category :: "expense list \<Rightarrow> summary_row list" where
  "groupby_category df =
     map (\<lambda>c. \<lparr>s_category = c,
               Total = sum_list (map amount (filter (\<lambda>r. category r = c) df)),
               Count = length (filter (\<lambda>r. category r = c) df),
               Percentage = None\<rparr>)
         (sort (remdups (map category df)))"

definition with_percentage :: "summary_row list \<Rightarrow> summary_row list" where
  "with_percentage rows =
     (let s = sum_list (map Total rows)
      in map (\<lambda>r. r\<lparr>Percentage := percentage (Total r) s\<rparr>) rows)"

text \<open>
  \<open>sort_values('Total', ascending=False)\<close> runs with the default \<open>kind='quicksort'\<close>,
  which pandas documents as not stable: the result is the rows in descending order of
  \<open>Total\<close>, and which of two rows with equal totals comes first is left to the sorting
  kernel. The source gives no second key. So the sort is a relation between the frame and
  each result it may have.
\<close>

definition sort_values_Total_desc :: "summary_row list \<Rightarrow> summary_row list \<Rightarrow> bool" where
  "sort_values_Total_desc rows out \<longleftrightarrow>
     mset out = mset rows \<and> sorted_wrt (\<lambda>a b. Total a \<ge> Total b) out"

definition category_summary :: "expense list \<Rightarrow> summary_row list \<Rightarrow> bool" where
  "category_summary df out \<longleftrightarrow>
     (if df = [] then out = []
      else sort_values_Total_desc (with_percentage (groupby_category df)) out)"

definition get_category_summary :: "database \<Rightarrow> int \<Rightarrow> summary_row list \<Rightarrow> bool" where
  "get_category_summary db user_id out \<longleftrightarrow> category_summary (get_expenses db user_id) out"


text \<open>
  The statistics of the Dashboard page (\<open>total_spent\<close>, \<open>num_transactions\<close>,
  \<open>avg_transaction\<close>), with the guard on the count that the source has there.
\<close>

record stats =
  total_spent :: real
  num_transactions :: nat
  avg_transaction :: real

definition dashboard_stats :: "expense list \<Rightarrow> stats" where
  "dashboard_stats df =
     (let total = sum_list (map amount df); n = length df
      in \<lparr>total_spent = total, num_transactions = n,
          avg_transaction = (if n > 0 then total / real n else 0)\<rparr>)"

text \<open>
  The statistics of the Monthly Report page divide without a guard, so the division is
  partial here; the page computes them only in the branch where the frame is not empty.
\<close>

datatype py_error = ZeroDivisionError

definition monthly_stats :: "expense list \<Rightarrow> py_error + stats" where
  "monthly_stats df =
     (let total = sum_list (map amount df); n = length df
      in if n = 0 then Inl ZeroDivisionError
         else Inr \<lparr>total_spent = total, num_transactions = n, avg_transaction = total / real n\<rparr>)"

datatype 'a page = Nothing_recorded | Metrics 'a

definition dashboard_page :: "expense list \<Rightarrow> stats page" where
  "dashboard_page df = (if df = [] then Nothing_recorded else Metrics (dashboard_stats df))"

definition monthly_report_page :: "expense list \<Rightarrow> py_error + stats page" where
  "monthly_report_page df =
     (if df = [] then Inr Nothing_recorded
      else (case monthly_stats df of Inl e \<Rightarrow> Inl e | Inr s \<Rightarrow> Inr (Metrics s)))"

text \<open>
  The daily series of the Dashboard: \<open>groupby\<close> on the calendar day of \<open>date\<close> (one
  row per day that occurs, ascending), the sum of the amounts of each day, and
  \<open>tail(30)\<close>, the last rows of that series.
\<close>

definition dates_present :: "expense list \<Rightarrow> date list" where
  "dates_present df = sort (remdups (map (\<lambda>r. dt_date (date r)) df))"

definition groupby_date_sum :: "expense list \<Rightarrow> (date \<times> real) list" where
  "groupby_date_sum df =
     map (\<lambda>d. (d, sum_list (map amount (filter (\<lambda>r. dt_date (date r) = d) df))))
         (dates_present df)"

definition tail :: "nat \<Rightarrow> 'a list \<Rightarrow> 'a list" where
  "tail n xs = drop (length xs - n) xs"

definition daily_series :: "expense list \<Rightarrow> nat \<Rightarrow> (date \<times> real) list" where
  "daily_series df window = tail window (groupby_date_sum df)"

definition daily_spending :: "expense list \<Rightarrow> (date \<times> real) list" where
  "daily_spending df = daily_series df 30"





section \<open>Database: the user store\<close>

text \<open>
  \<open>Database.hash_password\<close> is \<open>hashlib.sha256(password.encode()).hexdigest()\<close>. The
  digest function belongs to the Python library and is a parameter \<open>sha256\<close> of the two
  operations that use it.
\<close>

definition hash_password :: "(string \<Rightarrow> string) \<Rightarrow> string \<Rightarrow> string" where
  "hash_password sha256 password = sha256 password"


text \<open>
  \<open>Database.authenticate_user\<close>: \<open>fetchone\<close> gives the first row that matches both the
  username and the digest of the password, as the pair \<open>(id, username)\<close>, or \<open>None\<close>.
\<close>

definition authenticate_user ::
  "(string \<Rightarrow> string) \<Rightarrow> database \<Rightarrow> string \<Rightarrow> string \<Rightarrow> (int \<times> string) option" where
  "authenticate_user sha256 db username password =
     (let password_hash = hash_password sha256 password
      in case filter (\<lambda>r. u_username r = username \<and> u_password_hash r = password_hash)
                     (users db) of
           [] \<Rightarrow> None
         | r # _ \<Rightarrow> Some (u_id r, u_username r))"

text \<open>What SQLite keeps true of the \<open>users\<close> table: usernames and ids are pairwise
  different, and no id exceeds the counter.\<close>

definition users_ok :: "database \<Rightarrow> bool" where
  "users_ok db \<longleftrightarrow>
     distinct (map u_username (users db)) \<and> distinct (map u_id (users db)) \<and>
     list_all (\<lambda>r. u_id r \<le> users_seq db) (users db)"

section \<open>A store to run the operations on\<close>

text \<open>
  Two users and four expenses; user 1 owns the three rows of the specification's
  scenario (2024-01-05, 2024-01-20 and 2024-02-01 as day numbers), user 2 owns one row.
\<close>

definition example_db :: database where
  "example_db =
     \<lparr>users = [\<lparr>u_id = 1, u_username = ''alice'', u_password_hash = ''h1'', u_email = [], u_created_at = 0\<rparr>,
               \<lparr>u_id = 2, u_username = ''bob'', u_password_hash = ''h2'', u_email = [], u_created_at = 0\<rparr>],
      users_seq = 2,
      expenses = [\<lparr>e_id = 1, e_user_id = 1, e_date = 738890, e_category = ''Food'', e_amount = 25 / 2, e_description = [], e_created_at = 0\<rparr>,
                  \<lparr>e_id = 2, e_user_id = 2, e_date = 738900, e_category = ''Bills'', e_amount = 40, e_description = [], e_created_at = 0\<rparr>,
                  \<lparr>e_id = 3, e_user_id = 1, e_date = 738905, e_category = ''Food'', e_amount = 15 / 2, e_description = [], e_created_at = 0\<rparr>,
                  \<lparr>e_id = 4, e_user_id = 1, e_date = 738917, e_category = ''Transport'', e_amount = 30, e_description = [], e_created_at = 0\<rparr>],
      expenses_seq = 4\<rparr>"

text \<open>A stand-in for the digest, to run the user store on: alice's password is "1",
  bob's is "2".\<close>

definition example_digest :: "string \<Rightarrow> string" where
  "example_digest p = CHR ''h'' # p"




section \<open>Facts about the record store\<close>

lemma filter_all_id: "(\<And>x. x \<in> set xs \<Longrightarrow> P x) \<Longrightarrow> filter P xs = xs"
  by (induction xs) auto

lemma expenses_ok_init: "expenses_ok init_database"
  by (simp add: expenses_ok_def init_database_def)

lemma expenses_ok_add:
  "expenses_ok db \<Longrightarrow> expenses_ok (fst (add_expense db u now d c a s))"
  by (auto simp: expenses_ok_def add_expense_def Let_def list_all_iff)

lemma expenses_ok_delete:
  "expenses_ok db \<Longrightarrow> expenses_ok (fst (delete_expense db u i))"
  by (auto simp: expenses_ok_def delete_expense_def Let_def list_all_iff distinct_map_filter)

lemma set_get_expenses:
  "set (get_expenses db u) = select_columns ` {r \<in> set (expenses db). e_user_id r = u}"
  by (simp add: get_expenses_def)

lemma get_expenses_delete_other:
  "v \<noteq> u \<Longrightarrow> get_expenses (fst (delete_expense db u i)) v = get_expenses db v"
proof -
  assume "v \<noteq> u"
  then have "filter (\<lambda>r. e_user_id r = v) (filter (\<lambda>r. \<not> (e_id r = i \<and> e_user_id r = u)) (expenses db))
           = filter (\<lambda>r. e_user_id r = v) (expenses db)"
    by (induction "expenses db" arbitrary: db) (auto intro: filter_cong simp: filter_filter)
  then show ?thesis
    by (simp add: get_expenses_def delete_expense_def Let_def)
qed

lemma delete_expense_miss:
  "\<not> snd (delete_expense db u i) \<Longrightarrow> fst (delete_expense db u i) = db"
proof -
  assume "\<not> snd (delete_expense db u i)"
  then have "filter (\<lambda>r. e_id r = i \<and> e_user_id r = u) (expenses db) = []"
    by (simp add: delete_expense_def Let_def)
  then have "\<And>r. r \<in> set (expenses db) \<Longrightarrow> \<not> (e_id r = i \<and> e_user_id r = u)"
    by (simp add: filter_empty_conv)
  then have "filter (\<lambda>r. \<not> (e_id r = i \<and> e_user_id r = u)) (expenses db) = expenses db"
    by (rule filter_all_id)
  then show ?thesis
    by (simp add: delete_expense_def Let_def)
qed

lemma map_s_category_groupby:
  "map s_category (groupby_category df) = sort (remdups (map category df))"
  by (simp add: groupby_category_def comp_def)

lemma map_s_category_with_percentage:
  "map s_category (with_percentage rows) = map s_category rows"
  by (simp add: with_percentage_def Let_def comp_def)

lemma category_summary_set:
  assumes "category_summary df out"
  shows "set out = set (with_percentage (groupby_category df))"
proof (cases "df = []")
  case True
  with assms show ?thesis
    by (simp add: category_summary_def groupby_category_def with_percentage_def)
next
  case False
  with assms have "mset out = mset (with_percentage (groupby_category df))"
    by (simp add: category_summary_def sort_values_Total_desc_def)
  then show ?thesis
    by (rule mset_eq_setD)
qed

lemma category_summary_categories:
  assumes "category_summary df out"
  shows "s_category ` set out = category ` set df"
proof -
  have "s_category ` set out = set (map s_category (with_percentage (groupby_category df)))"
    using category_summary_set [OF assms] by simp
  also have "\<dots> = category ` set df"
    by (simp add: map_s_category_with_percentage map_s_category_groupby)
  finally show ?thesis .
qed

lemma set_filter_frame: "set (filter_frame df fc days now) \<subseteq> set df"
  by (auto simp: filter_frame_def Let_def split: option.splits if_splits)

section \<open>Facts about the user store\<close>

lemma users_ok_init: "users_ok init_database"
  by (simp add: users_ok_def init_database_def)


lemma authenticate_user_None:
  "(authenticate_user sha256 db username password = None)
     = (\<forall>r \<in> set (users db). u_username r = username \<longrightarrow> u_password_hash r \<noteq> sha256 password)"
proof -
  have "(authenticate_user sha256 db username password = None)
     = (filter (\<lambda>r. u_username r = username \<and> u_password_hash r = sha256 password) (users db) = [])"
    by (simp add: authenticate_user_def hash_password_def split: list.splits)
  then show ?thesis
    by (auto simp: filter_empty_conv)
qed

lemma authenticate_user_Some:
  assumes "authenticate_user sha256 db username password = Some (i, n)"
  shows "n = username \<and> (\<exists>r \<in> set (users db). u_id r = i \<and> u_username r = username
                          \<and> u_password_hash r = sha256 password)"
proof -
  from assms obtain r rs where
    f: "filter (\<lambda>r. u_username r = username \<and> u_password_hash r = sha256 password) (users db) = r # rs"
    and r: "u_id r = i" "u_username r = n"
    by (auto simp: authenticate_user_def hash_password_def Let_def split: list.splits)
  have "r \<in> set (filter (\<lambda>r. u_username r = username \<and> u_password_hash r = sha256 password) (users db))"
    unfolding f by simp
  with r show ?thesis by auto
qed

lemma authenticate_user_unique:
  assumes ok: "users_ok db" and r: "r \<in> set (users db)" "u_username r = username"
    "u_password_hash r = sha256 password"
  shows "authenticate_user sha256 db username password = Some (u_id r, username)"
proof -
  have "authenticate_user sha256 db username password \<noteq> None"
    using r by (auto simp: authenticate_user_None)
  then obtain i n where s: "authenticate_user sha256 db username password = Some (i, n)"
    by auto
  from authenticate_user_Some [OF s] obtain r' where
    r': "n = username" "r' \<in> set (users db)" "u_id r' = i" "u_username r' = username"
    by auto
  from ok have "inj_on u_username (set (users db))"
    by (simp add: users_ok_def distinct_map)
  with r r' have "r' = r"
    by (auto dest: inj_onD)
  with s r' show ?thesis by simp
qed


section \<open>Facts about the daily series and the ranking\<close>

lemma map_fst_groupby_date_sum: "map fst (groupby_date_sum df) = dates_present df"
  by (simp add: groupby_date_sum_def comp_def)

lemma dates_present_strict: "sorted_wrt (<) (dates_present df)"
  by (simp add: dates_present_def strict_sorted_iff)

lemma set_dates_present: "set (dates_present df) = (\<lambda>r. dt_date (date r)) ` set df"
  by (simp add: dates_present_def)

lemma length_dates_present: "length (dates_present df) = card ((\<lambda>r. dt_date (date r)) ` set df)"
proof -
  have "distinct (dates_present df)"
    by (simp add: dates_present_def)
  then have "card (set (dates_present df)) = length (dates_present df)"
    by (rule distinct_card)
  then show ?thesis
    by (simp add: set_dates_present)
qed

lemma length_tail: "length (tail n xs) = min n (length xs)"
  by (simp add: tail_def)

lemma map_tail: "map f (tail n xs) = tail n (map f xs)"
  by (simp add: tail_def drop_map)

lemma set_tail_subset: "set (tail n xs) \<subseteq> set xs"
  by (simp add: tail_def set_drop_subset)

lemma tail_most_recent:
  assumes "sorted_wrt (<) xs" "x \<in> set xs" "x \<notin> set (tail n xs)" "y \<in> set (tail n xs)"
  shows "x < y"
proof -
  let ?k = "length xs - n"
  have "xs = take ?k xs @ drop ?k xs" by simp
  with assms(1) have s: "sorted_wrt (<) (take ?k xs @ drop ?k xs)" by simp
  from assms(2) have "x \<in> set (take ?k xs) \<union> set (drop ?k xs)"
    by (metis append_take_drop_id set_append)
  with assms(3) have "x \<in> set (take ?k xs)"
    by (simp add: tail_def)
  moreover from assms(4) have "y \<in> set (drop ?k xs)"
    by (simp add: tail_def)
  moreover from s have "\<forall>a \<in> set (take ?k xs). \<forall>b \<in> set (drop ?k xs). a < b"
    unfolding sorted_wrt_append by blast
  ultimately show ?thesis
    by blast
qed


section \<open>Facts about the category summary\<close>


lemma rint_of_int: "rint (of_int z) = z"
  by (simp add: rint_def)

lemma float64_eval:
  assumes "2 powr of_int k \<le> \<bar>x\<bar>" "\<bar>x\<bar> < 2 powr (of_int k + 1)"
  shows "float64 x = of_int (rint (x / 2 powr of_int (k - 52))) * 2 powr of_int (k - 52)"
proof -
  have "0 < (2::real) powr of_int k"
    by simp
  with assms(1) have pos: "0 < \<bar>x\<bar>"
    by linarith
  have "\<lfloor>log 2 \<bar>x\<bar>\<rfloor> = k"
    using floor_log_eq_powr_iff [of "\<bar>x\<bar>" 2 k] pos assms by simp
  moreover from pos have "x \<noteq> 0" by auto
  ultimately show ?thesis
    by (simp add: float64_def)
qed

lemma float64_exact:
  assumes "\<bar>m\<bar> < 2 ^ 53"
  shows "float64 (of_int m * 2 powr of_int j) = of_int m * 2 powr of_int j"
proof (cases "m = 0")
  case True
  then show ?thesis by (simp add: float64_def)
next
  case False
  let ?x = "of_int m * 2 powr of_int j :: real"
  have x0: "?x \<noteq> 0" using False by simp
  define k where "k = \<lfloor>log 2 \<bar>?x\<bar>\<rfloor>"
  have absx: "\<bar>?x\<bar> = of_int \<bar>m\<bar> * 2 powr of_int j"
    by (simp add: abs_mult)
  have "of_int \<bar>m\<bar> < (2::real) ^ 53"
    using assms by (metis of_int_less_numeral_power_cancel_iff)
  then have "\<bar>?x\<bar> < 2 ^ 53 * 2 powr of_int j"
    unfolding absx by (simp add: mult_strict_right_mono)
  also have "\<dots> = 2 powr (of_int (53 + j))"
    by (simp add: powr_add)
  finally have up: "\<bar>?x\<bar> < 2 powr (of_int (53 + j))" .
  have "0 < \<bar>?x\<bar>"
    using x0 by simp
  then have "2 powr of_int k \<le> \<bar>?x\<bar>"
    using floor_log_eq_powr_iff [of "\<bar>?x\<bar>" 2 k] by (simp add: k_def)
  with up have "2 powr of_int k < (2::real) powr (of_int (53 + j))"
    by linarith
  then have "k < 53 + j"
    by simp
  define n where "n = nat (j - k + 52)"
  with \<open>k < 53 + j\<close> have n: "j = k - 52 + int n"
    by simp
  have "?x / 2 powr of_int (k - 52) = of_int m * 2 powr (of_int j - of_int (k - 52))"
    by (simp add: powr_diff)
  also have "\<dots> = of_int m * 2 ^ n"
    unfolding n by (simp add: powr_realpow)
  also have "\<dots> = of_int (m * 2 ^ n)"
    by simp
  finally have int: "?x / 2 powr of_int (k - 52) = of_int (m * 2 ^ n)" .
  have "float64 ?x = of_int (rint (?x / 2 powr of_int (k - 52))) * 2 powr of_int (k - 52)"
    using x0 unfolding float64_def k_def Let_def by simp
  also have "\<dots> = ?x / 2 powr of_int (k - 52) * 2 powr of_int (k - 52)"
    unfolding int rint_of_int ..
  also have "\<dots> = ?x"
    by simp
  finally show ?thesis .
qed

lemma float64_int: "\<bar>m\<bar> < 2 ^ 53 \<Longrightarrow> float64 (of_int m) = of_int m"
  using float64_exact [of m 0] by simp




lemma float64_dyadic: "\<bar>m\<bar> < 2 ^ 53 \<Longrightarrow> float64 (of_int m / 2 ^ n) = of_int m / 2 ^ n"
  using float64_exact [of m "- int n"] by (simp add: powr_minus powr_realpow divide_inverse)





lemma percentage_23_160: "percentage 23 160 = Some (8089590830664253 / 562949953421312)"
proof -
  have a: "float64 (23 / 160) = 2589569785738035 / 18014398509481984"
  proof -
    have "float64 (23 / 160)
            = of_int (rint (23 / 160 / 2 powr of_int ((- 3) - 52))) * 2 powr of_int ((- 3) - 52)"
      by (rule float64_eval) (simp_all add: powr_neg_numeral)
    also have "(23 / 160 / 2 powr of_int ((- 3) - 52) :: real) = 25895697857380352 / 5"
      by (simp add: powr_neg_numeral)
    also have "rint (25895697857380352 / 5) = 5179139571476070"
      by (simp add: rint_def)
    finally show ?thesis
      by (simp add: powr_neg_numeral)
  qed
  have b: "float64 (64739244643450875 / 4503599627370496) = 8092405580431359 / 562949953421312"
  proof -
    have "float64 (64739244643450875 / 4503599627370496)
            = of_int (rint (64739244643450875 / 4503599627370496 / 2 powr of_int (3 - 52))) * 2 powr of_int (3 - 52)"
      by (rule float64_eval) (simp_all add: powr_neg_numeral)
    also have "(64739244643450875 / 4503599627370496 / 2 powr of_int (3 - 52) :: real) = 64739244643450875 / 8"
      by (simp add: powr_neg_numeral)
    also have "rint (64739244643450875 / 8) = 8092405580431359"
      by (simp add: rint_def)
    finally show ?thesis
      by (simp add: powr_neg_numeral)
  qed
  have c: "float64 (202310139510783975 / 140737488355328) = 6322191859711999 / 4398046511104"
  proof -
    have "float64 (202310139510783975 / 140737488355328)
            = of_int (rint (202310139510783975 / 140737488355328 / 2 powr of_int (10 - 52))) * 2 powr of_int (10 - 52)"
      by (rule float64_eval) (simp_all add: powr_neg_numeral)
    also have "(202310139510783975 / 140737488355328 / 2 powr of_int (10 - 52) :: real) = 202310139510783975 / 32"
      by (simp add: powr_neg_numeral)
    also have "rint (202310139510783975 / 32) = 6322191859711999"
      by (simp add: rint_def)
    finally show ?thesis
      by (simp add: powr_neg_numeral)
  qed
  have r: "rint (6322191859711999 / 4398046511104) = 1437"
    by (simp add: rint_def)
  have p: "float64 (1437 / 100) = 8089590830664253 / 562949953421312"
  proof -
    have "float64 (1437 / 100)
            = of_int (rint (1437 / 100 / 2 powr of_int (3 - 52))) * 2 powr of_int (3 - 52)"
      by (rule float64_eval) (simp_all add: powr_neg_numeral)
    also have "(1437 / 100 / 2 powr of_int (3 - 52) :: real) = 202239770766606336 / 25"
      by (simp add: powr_neg_numeral)
    also have "rint (202239770766606336 / 25) = 8089590830664253"
      by (simp add: rint_def)
    finally show ?thesis
      by (simp add: powr_neg_numeral)
  qed
  show ?thesis
    by (simp add: percentage_def round2_def a b c r p)
qed














section \<open>The claims\<close>

subsection \<open>Adding an expense\<close>

text \<open>
  Claim C1 says that \<open>addExpense\<close> with an amount that is not positive fails with a
  validation error and writes nothing. \<open>add_expense\<close> does not look at the amount: with
  amount 0 on the empty store it writes a row and returns \<open>True\<close>.
\<close>

theorem add_expense_no_validation:
  "expenses (fst (add_expense init_database 1 0 738890 ''Food'' 0 [])) \<noteq> expenses init_database
   \<and> snd (add_expense init_database 1 0 738890 ''Food'' 0 []) = True"
  by (simp add: add_expense_def init_database_def)

text \<open>
  Claim C1 as the program has it: for every amount, positive or not, \<open>add_expense\<close>
  appends exactly one row, with the given fields, the caller as owner and the next id of
  the counter, which no stored row has; it leaves the users untouched and returns \<open>True\<close>,
  not the id. The check of the amount is made by the page that calls \<open>add_expense\<close>: for a
  positive amount the page's store is the one \<open>add_expense\<close> returns, for an amount that
  is not positive the page reports "Amount must be greater than 0" and the store stays as
  it was. (The number input of the form admits no amount below 0.01, so a user of the form
  never reaches the second branch.)
\<close>

theorem add_expense_contract:
  "expenses (fst (add_expense db u now d c amt s))
     = expenses db @ [\<lparr>e_id = expenses_seq db + 1, e_user_id = u, e_date = d, e_category = c,
                        e_amount = amt, e_description = s, e_created_at = now\<rparr>]
   \<and> expenses_seq (fst (add_expense db u now d c amt s)) = expenses_seq db + 1
   \<and> users (fst (add_expense db u now d c amt s)) = users db
   \<and> users_seq (fst (add_expense db u now d c amt s)) = users_seq db
   \<and> snd (add_expense db u now d c amt s) = True
   \<and> (expenses_ok db \<longrightarrow>
        expenses_seq db + 1 \<notin> set (map e_id (expenses db))
        \<and> expenses_ok (fst (add_expense db u now d c amt s)))
   \<and> (amt > 0 \<longrightarrow>
        add_expense_page db u now d c amt s
          = (fst (add_expense db u now d c amt s), Success amt c))
   \<and> (amt \<le> 0 \<longrightarrow>
        add_expense_page db u now d c amt s = (db, Error ''Amount must be greater than 0''))"
proof (intro conjI impI)
  assume ok: "expenses_ok db"
  then show "expenses_seq db + 1 \<notin> set (map e_id (expenses db))"
    by (auto simp: expenses_ok_def list_all_iff)
  from ok show "expenses_ok (fst (add_expense db u now d c amt s))"
    by (rule expenses_ok_add)
qed (simp_all add: add_expense_page_def add_expense_def Let_def)

theorem add_expense_contract_witness:
  "expenses_ok example_db
   \<and> expenses (fst (add_expense example_db 1 7 738920 ''Food'' (- 5) ''tea''))
       = expenses example_db @ [\<lparr>e_id = 5, e_user_id = 1, e_date = 738920, e_category = ''Food'',
                                  e_amount = - 5, e_description = ''tea'', e_created_at = 7\<rparr>]
   \<and> 5 \<notin> set (map e_id (expenses example_db))
   \<and> add_expense_page example_db 1 7 738920 ''Food'' 3 ''tea''
       = (fst (add_expense example_db 1 7 738920 ''Food'' 3 ''tea''), Success 3 ''Food'')
   \<and> add_expense_page example_db 1 7 738920 ''Food'' 0 ''tea''
       = (example_db, Error ''Amount must be greater than 0'')"
proof -
  have ok: "expenses_ok example_db"
    by (simp add: example_db_def expenses_ok_def)
  have seq: "expenses_seq example_db + 1 = 5"
    by (simp add: example_db_def)
  from add_expense_contract [of example_db 1 7 738920 "''Food''" "- 5" "''tea''"] ok
  have row: "expenses (fst (add_expense example_db 1 7 738920 ''Food'' (- 5) ''tea''))
       = expenses example_db @ [\<lparr>e_id = 5, e_user_id = 1, e_date = 738920, e_category = ''Food'',
                                  e_amount = - 5, e_description = ''tea'', e_created_at = 7\<rparr>]"
    and fresh: "5 \<notin> set (map e_id (expenses example_db))"
    unfolding seq by blast+
  from add_expense_contract [of example_db 1 7 738920 "''Food''" 3 "''tea''"]
  have pos: "add_expense_page example_db 1 7 738920 ''Food'' 3 ''tea''
       = (fst (add_expense example_db 1 7 738920 ''Food'' 3 ''tea''), Success 3 ''Food'')"
    by simp
  from add_expense_contract [of example_db 1 7 738920 "''Food''" 0 "''tea''"]
  have zero: "add_expense_page example_db 1 7 738920 ''Food'' 0 ''tea''
       = (example_db, Error ''Amount must be greater than 0'')"
    by simp
  from ok row fresh pos zero show ?thesis
    by blast
qed

subsection \<open>Deleting an expense\<close>

text \<open>
  Claim C2: \<open>delete_expense\<close> returns true exactly when a row with both the id and the
  caller's user id was stored, and then no such row is left, the other rows are all kept
  and (ids being unique) exactly one row is gone. When it returns false the store is
  unchanged. Whatever the result, every other user reads the same rows as before, so a row
  that belongs to somebody else stays readable by its owner.
\<close>

theorem delete_expense_contract:
  "(snd (delete_expense db u i) \<longleftrightarrow> (\<exists>r \<in> set (expenses db). e_id r = i \<and> e_user_id r = u))
   \<and> (\<forall>r \<in> set (expenses (fst (delete_expense db u i))). \<not> (e_id r = i \<and> e_user_id r = u))
   \<and> set (expenses (fst (delete_expense db u i)))
       = set (expenses db) - {r. e_id r = i \<and> e_user_id r = u}
   \<and> (expenses_ok db \<and> snd (delete_expense db u i) \<longrightarrow>
        Suc (length (expenses (fst (delete_expense db u i)))) = length (expenses db))
   \<and> (\<not> snd (delete_expense db u i) \<longrightarrow> fst (delete_expense db u i) = db)
   \<and> (\<forall>v. v \<noteq> u \<longrightarrow> get_expenses (fst (delete_expense db u i)) v = get_expenses db v)
   \<and> (\<forall>r \<in> set (expenses db). e_user_id r \<noteq> u \<longrightarrow>
        select_columns r \<in> set (get_expenses (fst (delete_expense db u i)) (e_user_id r)))"
proof (intro conjI)
  show "snd (delete_expense db u i) \<longleftrightarrow> (\<exists>r \<in> set (expenses db). e_id r = i \<and> e_user_id r = u)"
    by (auto simp: delete_expense_def Let_def filter_empty_conv)
  show "\<forall>r \<in> set (expenses (fst (delete_expense db u i))). \<not> (e_id r = i \<and> e_user_id r = u)"
    by (simp add: delete_expense_def Let_def)
  show "set (expenses (fst (delete_expense db u i)))
       = set (expenses db) - {r. e_id r = i \<and> e_user_id r = u}"
    by (auto simp: delete_expense_def Let_def)
  show "expenses_ok db \<and> snd (delete_expense db u i) \<longrightarrow>
        Suc (length (expenses (fst (delete_expense db u i)))) = length (expenses db)"
  proof
    assume a: "expenses_ok db \<and> snd (delete_expense db u i)"
    then have d: "distinct (map e_id (expenses db))"
      by (simp add: expenses_ok_def)
    from a obtain r where r: "r \<in> set (expenses db)" "e_id r = i" "e_user_id r = u"
      by (auto simp: delete_expense_def Let_def filter_empty_conv)
    have "{x. e_id x = i \<and> e_user_id x = u} \<inter> set (expenses db) = {r}"
      using d r by (auto simp: distinct_map inj_on_def)
    moreover have "distinct (expenses db)"
      using d by (simp add: distinct_map)
    ultimately have "length (filter (\<lambda>x. e_id x = i \<and> e_user_id x = u) (expenses db)) = 1"
      by (simp add: distinct_length_filter)
    then have "Suc (length (filter (\<lambda>x. \<not> (e_id x = i \<and> e_user_id x = u)) (expenses db)))
             = length (expenses db)"
      using sum_length_filter_compl [of "\<lambda>x. e_id x = i \<and> e_user_id x = u" "expenses db"]
      by simp
    then show "Suc (length (expenses (fst (delete_expense db u i)))) = length (expenses db)"
      by (simp add: delete_expense_def Let_def)
  qed
  show "\<not> snd (delete_expense db u i) \<longrightarrow> fst (delete_expense db u i) = db"
    by (simp add: delete_expense_miss)
  show "\<forall>v. v \<noteq> u \<longrightarrow> get_expenses (fst (delete_expense db u i)) v = get_expenses db v"
    by (simp add: get_expenses_delete_other)
  show "\<forall>r \<in> set (expenses db). e_user_id r \<noteq> u \<longrightarrow>
        select_columns r \<in> set (get_expenses (fst (delete_expense db u i)) (e_user_id r))"
    by (simp add: get_expenses_delete_other set_get_expenses)
qed


theorem delete_expense_contract_witness:
  "expenses_ok example_db
   \<and> snd (delete_expense example_db 1 3)
   \<and> map e_id (expenses (fst (delete_expense example_db 1 3))) = [1, 2, 4]
   \<and> \<not> snd (delete_expense example_db 1 2)
   \<and> fst (delete_expense example_db 1 2) = example_db
   \<and> map df_id (get_expenses (fst (delete_expense example_db 1 2)) 2) = [2]"
  using delete_expense_contract [of example_db 1 3] delete_expense_contract [of example_db 1 2]
  by (simp add: delete_expense_def get_expenses_def select_columns_def example_db_def expenses_ok_def)

subsection \<open>Isolation of users\<close>

text \<open>
  Claim C10: every row that \<open>get_expenses\<close> returns for a user is the projection of a
  stored row owned by that user, and all of the user's rows are returned; no id of a row
  owned by another user occurs in the result; the filtered frame and the category summary
  are made of the user's own rows only; a deletion issued by another user leaves the
  user's rows as they were, and whatever a deletion removes is owned by the user who
  issued it.
\<close>

theorem user_isolation:
  "(\<forall>x \<in> set (get_expenses db u).
       \<exists>r \<in> set (expenses db). e_user_id r = u \<and> x = select_columns r)
   \<and> (\<forall>r \<in> set (expenses db). e_user_id r = u \<longrightarrow> select_columns r \<in> set (get_expenses db u))
   \<and> (expenses_ok db \<longrightarrow>
        (\<forall>r \<in> set (expenses db). e_user_id r \<noteq> u \<longrightarrow> e_id r \<notin> df_id ` set (get_expenses db u)))
   \<and> set (get_filtered_expenses db u fc days now) \<subseteq> set (get_expenses db u)
   \<and> (\<forall>out. get_category_summary db u out \<longrightarrow>
        s_category ` set out \<subseteq> e_category ` {r \<in> set (expenses db). e_user_id r = u})
   \<and> (\<forall>v i. v \<noteq> u \<longrightarrow> get_expenses (fst (delete_expense db v i)) u = get_expenses db u)
   \<and> (\<forall>v i. set (expenses db) - set (expenses (fst (delete_expense db v i)))
                \<subseteq> {r. e_user_id r = v})"
proof (intro conjI)
  show "\<forall>x \<in> set (get_expenses db u).
       \<exists>r \<in> set (expenses db). e_user_id r = u \<and> x = select_columns r"
    by (auto simp: set_get_expenses)
  show "\<forall>r \<in> set (expenses db). e_user_id r = u \<longrightarrow> select_columns r \<in> set (get_expenses db u)"
    by (auto simp: set_get_expenses)
  show "expenses_ok db \<longrightarrow>
        (\<forall>r \<in> set (expenses db). e_user_id r \<noteq> u \<longrightarrow> e_id r \<notin> df_id ` set (get_expenses db u))"
  proof (intro impI ballI)
    fix r
    assume ok: "expenses_ok db" and r: "r \<in> set (expenses db)" and other: "e_user_id r \<noteq> u"
    from ok have inj: "inj_on e_id (set (expenses db))"
      by (simp add: expenses_ok_def distinct_map)
    show "e_id r \<notin> df_id ` set (get_expenses db u)"
    proof
      assume "e_id r \<in> df_id ` set (get_expenses db u)"
      then obtain r' where r': "r' \<in> set (expenses db)" "e_user_id r' = u" "e_id r' = e_id r"
        by (auto simp: set_get_expenses select_columns_def)
      with inj r have "r' = r"
        by (auto dest: inj_onD)
      with r' other show False by simp
    qed
  qed
  show "set (get_filtered_expenses db u fc days now) \<subseteq> set (get_expenses db u)"
    by (simp add: get_filtered_expenses_def set_filter_frame)
  show "\<forall>out. get_category_summary db u out \<longrightarrow>
        s_category ` set out \<subseteq> e_category ` {r \<in> set (expenses db). e_user_id r = u}"
  proof (intro allI impI)
    fix out
    assume "get_category_summary db u out"
    then have "s_category ` set out = category ` set (get_expenses db u)"
      by (simp add: get_category_summary_def category_summary_categories)
    then show "s_category ` set out \<subseteq> e_category ` {r \<in> set (expenses db). e_user_id r = u}"
      by (auto simp: set_get_expenses select_columns_def)
  qed
  show "\<forall>v i. v \<noteq> u \<longrightarrow> get_expenses (fst (delete_expense db v i)) u = get_expenses db u"
    by (simp add: get_expenses_delete_other)
  show "\<forall>v i. set (expenses db) - set (expenses (fst (delete_expense db v i)))
                \<subseteq> {r. e_user_id r = v}"
    by (auto simp: delete_expense_def Let_def)
qed

theorem user_isolation_witness:
  "expenses_ok example_db
   \<and> map df_id (get_expenses example_db 1) = [4, 3, 1]
   \<and> map df_id (get_expenses example_db 2) = [2]
   \<and> map df_id (get_expenses (fst (delete_expense example_db 2 3)) 1) = [4, 3, 1]"
  using user_isolation [of example_db 1 None None 0] user_isolation [of example_db 2 None None 0]
  by (simp add: get_expenses_def delete_expense_def select_columns_def example_db_def expenses_ok_def)

subsection \<open>Filtering\<close>

text \<open>
  Claim C5 says that the recency filter is applied whenever \<open>sinceDays\<close> is provided.
  With \<open>days = 0\<close> the claim keeps only the rows dated at or after \<open>now\<close>, which is
  none of the three rows of user 1 on 2024-02-04; \<open>filter_frame\<close> returns all three.
\<close>

theorem filter_frame_zero_days:
  "filter_frame (get_expenses example_db 1) None (Some 0) (to_datetime 738920)
     = get_expenses example_db 1
   \<and> get_expenses example_db 1 \<noteq> []
   \<and> filter (\<lambda>r. date r \<ge> to_datetime 738920 - timedelta_days 0) (get_expenses example_db 1) = []"
  by (simp add: filter_frame_def get_expenses_def select_columns_def example_db_def
      to_datetime_def timedelta_days_def usec_per_day_def)

text \<open>
  Claim C5 as the program has it: the category filter is an exact match and is applied
  when the category is given, is not the empty string and is not \<open>'All'\<close>; the recency
  filter keeps the rows with \<open>date \<ge> now - days\<close> and is applied when \<open>days\<close> is
  given and is not zero; a row is kept when it passes every filter that is applied; with
  neither parameter the frame is returned as it is; the result is a subsequence of the
  frame, so the order of the rows is kept, and a frame in descending order of date stays so.
\<close>

theorem filter_frame_contract:
  "filter_frame df fc days now
     = filter (\<lambda>r. (category_active fc \<longrightarrow> category r = the fc)
                 \<and> (days_active days \<longrightarrow> date r \<ge> now - timedelta_days (the days))) df
   \<and> filter_frame df None None now = df
   \<and> subseq (filter_frame df fc days now) df
   \<and> (sorted_wrt (\<lambda>a b. date a \<ge> date b) df
        \<longrightarrow> sorted_wrt (\<lambda>a b. date a \<ge> date b) (filter_frame df fc days now))"
proof -
  have eq: "filter_frame df fc days now
     = filter (\<lambda>r. (category_active fc \<longrightarrow> category r = the fc)
                 \<and> (days_active days \<longrightarrow> date r \<ge> now - timedelta_days (the days))) df"
    by (cases df) (auto simp: filter_frame_def category_active_def days_active_def Let_def
        split: option.splits intro: filter_cong)
  have none: "filter_frame df None None now = df"
    by (simp add: filter_frame_def)
  show ?thesis
    unfolding none unfolding eq
    by (simp add: sorted_wrt_filter)
qed

theorem filter_frame_contract_witness:
  "category_active (Some ''Food'') \<and> days_active (Some 30)
   \<and> sorted_wrt (\<lambda>a b. date a \<ge> date b) (get_expenses example_db 1)
   \<and> map df_id (filter_frame (get_expenses example_db 1) (Some ''Food'') (Some 30) (to_datetime 738930)) = [3]
   \<and> map df_id (filter_frame (get_expenses example_db 1) (Some ''All'') None (to_datetime 738930)) = [4, 3, 1]"
  using filter_frame_contract [of "get_expenses example_db 1" "Some ''Food''" "Some 30" "to_datetime 738930"]
        filter_frame_contract [of "get_expenses example_db 1" "Some ''All''" None "to_datetime 738930"]
  by (simp add: filter_frame_def get_expenses_def select_columns_def example_db_def
      to_datetime_def timedelta_days_def usec_per_day_def category_active_def days_active_def)

subsection \<open>Overall statistics\<close>

text \<open>
  Claim C4: the total is the sum of the amounts, the count is the number of rows, the
  average is their quotient for a positive count and 0 for the count 0; on the empty frame
  all three are 0. A division by zero is never reached: the Monthly Report page, whose
  division has no guard, computes the statistics only for a frame that is not empty, and
  there they are those of the Dashboard.
\<close>

theorem overall_stats:
  "total_spent (dashboard_stats df) = sum_list (map amount df)
   \<and> num_transactions (dashboard_stats df) = length df
   \<and> (length df > 0 \<longrightarrow>
        avg_transaction (dashboard_stats df) = sum_list (map amount df) / real (length df))
   \<and> (length df = 0 \<longrightarrow> avg_transaction (dashboard_stats df) = 0)
   \<and> dashboard_stats [] = \<lparr>total_spent = 0, num_transactions = 0, avg_transaction = 0\<rparr>
   \<and> monthly_report_page df \<noteq> Inl ZeroDivisionError
   \<and> (df \<noteq> [] \<longrightarrow> monthly_report_page df = Inr (Metrics (dashboard_stats df))
                 \<and> dashboard_page df = Metrics (dashboard_stats df))"
  by (auto simp: dashboard_stats_def monthly_report_page_def monthly_stats_def
      dashboard_page_def Let_def)

theorem overall_stats_witness:
  "dashboard_stats (get_expenses example_db 1)
     = \<lparr>total_spent = 50, num_transactions = 3, avg_transaction = 50 / 3\<rparr>
   \<and> monthly_report_page (get_expenses example_db 1)
     = Inr (Metrics \<lparr>total_spent = 50, num_transactions = 3, avg_transaction = 50 / 3\<rparr>)
   \<and> length (get_expenses example_db 3) = 0
   \<and> avg_transaction (dashboard_stats (get_expenses example_db 3)) = 0"
  using overall_stats [of "get_expenses example_db 1"] overall_stats [of "get_expenses example_db 3"]
  by (simp add: dashboard_stats_def monthly_report_page_def monthly_stats_def get_expenses_def
      select_columns_def example_db_def)

subsection \<open>Creating a user\<close>



subsection \<open>Authenticating\<close>

text \<open>
  Claim C9: a result \<open>(id, username)\<close> comes from a stored row with that id, the given
  username and the digest of the given password; with unique usernames the row that
  matches is the one returned; the result is \<open>None\<close> exactly when no row matches, and so
  it is the same \<open>None\<close> for a username that is unknown and for a known username with
  another password.
\<close>

theorem authenticate_user_contract:
  "(\<forall>i n. authenticate_user sha256 db username password = Some (i, n) \<longrightarrow>
      n = username \<and> (\<exists>r \<in> set (users db). u_id r = i \<and> u_username r = username
                        \<and> u_password_hash r = sha256 password))
   \<and> (users_ok db \<longrightarrow>
        (\<forall>r \<in> set (users db). u_username r = username \<and> u_password_hash r = sha256 password
           \<longrightarrow> authenticate_user sha256 db username password = Some (u_id r, username)))
   \<and> ((authenticate_user sha256 db username password = None)
        = (\<not> (\<exists>r \<in> set (users db). u_username r = username \<and> u_password_hash r = sha256 password)))
   \<and> (username \<notin> set (map u_username (users db)) \<longrightarrow>
        authenticate_user sha256 db username password = None)
   \<and> (username \<in> set (map u_username (users db))
        \<and> (\<forall>r \<in> set (users db). u_username r = username \<longrightarrow> u_password_hash r \<noteq> sha256 password)
        \<longrightarrow> authenticate_user sha256 db username password = None)"
proof (intro conjI)
  show "\<forall>i n. authenticate_user sha256 db username password = Some (i, n) \<longrightarrow>
      n = username \<and> (\<exists>r \<in> set (users db). u_id r = i \<and> u_username r = username
                        \<and> u_password_hash r = sha256 password)"
    using authenticate_user_Some by blast
  show "users_ok db \<longrightarrow>
        (\<forall>r \<in> set (users db). u_username r = username \<and> u_password_hash r = sha256 password
           \<longrightarrow> authenticate_user sha256 db username password = Some (u_id r, username))"
    using authenticate_user_unique by blast
  show "(authenticate_user sha256 db username password = None)
        = (\<not> (\<exists>r \<in> set (users db). u_username r = username \<and> u_password_hash r = sha256 password))"
    by (auto simp: authenticate_user_None)
  show "username \<notin> set (map u_username (users db)) \<longrightarrow>
        authenticate_user sha256 db username password = None"
    by (auto simp: authenticate_user_None)
  show "username \<in> set (map u_username (users db))
        \<and> (\<forall>r \<in> set (users db). u_username r = username \<longrightarrow> u_password_hash r \<noteq> sha256 password)
        \<longrightarrow> authenticate_user sha256 db username password = None"
    by (auto simp: authenticate_user_None)
qed

theorem authenticate_user_contract_witness:
  "users_ok example_db
   \<and> authenticate_user example_digest example_db ''alice'' ''1'' = Some (1, ''alice'')
   \<and> ''carol'' \<notin> set (map u_username (users example_db))
   \<and> authenticate_user example_digest example_db ''carol'' ''1'' = None
   \<and> ''alice'' \<in> set (map u_username (users example_db))
   \<and> authenticate_user example_digest example_db ''alice'' ''2'' = None"
proof -
  let ?alice = "\<lparr>u_id = 1, u_username = ''alice'', u_password_hash = ''h1'', u_email = [],
                  u_created_at = 0\<rparr>"
  have ok: "users_ok example_db"
    by (simp add: example_db_def users_ok_def)
  have row: "?alice \<in> set (users example_db) \<and> u_username ?alice = ''alice''
             \<and> u_password_hash ?alice = example_digest ''1''"
    by (simp add: example_db_def example_digest_def)
  have carol: "''carol'' \<notin> set (map u_username (users example_db))"
    by (simp add: example_db_def)
  have alice: "''alice'' \<in> set (map u_username (users example_db))"
    by (simp add: example_db_def)
  have wrong: "\<forall>r \<in> set (users example_db).
                 u_username r = ''alice'' \<longrightarrow> u_password_hash r \<noteq> example_digest ''2''"
    by (simp add: example_db_def example_digest_def)
  have "authenticate_user example_digest example_db ''alice'' ''1'' = Some (u_id ?alice, ''alice'')"
    using authenticate_user_contract [of example_digest example_db "''alice''" "''1''"] ok row
    by blast
  then have a1: "authenticate_user example_digest example_db ''alice'' ''1'' = Some (1, ''alice'')"
    by simp
  have a2: "authenticate_user example_digest example_db ''carol'' ''1'' = None"
    using authenticate_user_contract [of example_digest example_db "''carol''" "''1''"] carol
    by blast
  have a3: "authenticate_user example_digest example_db ''alice'' ''2'' = None"
    using authenticate_user_contract [of example_digest example_db "''alice''" "''2''"] alice wrong
    by blast
  from ok a1 carol a2 alice a3 show ?thesis
    by blast
qed

subsection \<open>Daily series\<close>

text \<open>
  Claim C6: the series has one pair per calendar day, in strictly ascending order of the
  day; every day in it occurs in the data; it has as many pairs as the window allows and
  the data has distinct days; the total of a day is the sum of the amounts of the rows of
  that day; and the days kept are the most recent ones that occur in the data: a day of
  the data that is left out is earlier than every day kept. The Dashboard takes the
  window 30.
\<close>

theorem daily_series_contract:
  "sorted_wrt (<) (map fst (daily_series df window))
   \<and> fst ` set (daily_series df window) \<subseteq> (\<lambda>r. dt_date (date r)) ` set df
   \<and> length (daily_series df window) = min window (card ((\<lambda>r. dt_date (date r)) ` set df))
   \<and> (\<forall>(d, t) \<in> set (daily_series df window).
         t = sum_list (map amount (filter (\<lambda>r. dt_date (date r) = d) df)))
   \<and> (\<forall>d \<in> (\<lambda>r. dt_date (date r)) ` set df. d \<notin> fst ` set (daily_series df window) \<longrightarrow>
         (\<forall>d' \<in> fst ` set (daily_series df window). d < d'))
   \<and> daily_spending df = daily_series df 30"
proof (intro conjI)
  have fst_eq: "map fst (daily_series df window) = tail window (dates_present df)"
    by (simp add: daily_series_def map_tail map_fst_groupby_date_sum)
  then have set_eq: "fst ` set (daily_series df window) = set (tail window (dates_present df))"
    by (metis set_map)
  show "sorted_wrt (<) (map fst (daily_series df window))"
    unfolding fst_eq tail_def using dates_present_strict by (rule sorted_wrt_drop)
  show "fst ` set (daily_series df window) \<subseteq> (\<lambda>r. dt_date (date r)) ` set df"
    unfolding set_eq using set_tail_subset [of window "dates_present df"]
    by (simp add: set_dates_present)
  show "length (daily_series df window) = min window (card ((\<lambda>r. dt_date (date r)) ` set df))"
    by (simp add: daily_series_def length_tail groupby_date_sum_def length_dates_present)
  show "\<forall>(d, t) \<in> set (daily_series df window).
         t = sum_list (map amount (filter (\<lambda>r. dt_date (date r) = d) df))"
    using set_tail_subset [of window "groupby_date_sum df"]
    by (auto simp: daily_series_def groupby_date_sum_def)
  show "\<forall>d \<in> (\<lambda>r. dt_date (date r)) ` set df. d \<notin> fst ` set (daily_series df window) \<longrightarrow>
         (\<forall>d' \<in> fst ` set (daily_series df window). d < d')"
    unfolding set_eq set_dates_present [symmetric]
    using tail_most_recent [OF dates_present_strict] by blast
  show "daily_spending df = daily_series df 30"
    by (simp add: daily_spending_def)
qed

theorem daily_series_contract_witness:
  "daily_series (get_expenses example_db 1) 2 = [(738905, 15 / 2), (738917, 30)]
   \<and> 738890 \<in> (\<lambda>r. dt_date (date r)) ` set (get_expenses example_db 1)
   \<and> 738890 \<notin> fst ` set (daily_series (get_expenses example_db 1) 2)
   \<and> list_all (\<lambda>d'. 738890 < d') (map fst (daily_series (get_expenses example_db 1) 2))"
proof -
  have df: "get_expenses example_db 1 =
     [\<lparr>df_id = 4, date = to_datetime 738917, category = ''Transport'', amount = 30,
        description = [], created_at = 0\<rparr>,
      \<lparr>df_id = 3, date = to_datetime 738905, category = ''Food'', amount = 15 / 2,
        description = [], created_at = 0\<rparr>,
      \<lparr>df_id = 1, date = to_datetime 738890, category = ''Food'', amount = 25 / 2,
        description = [], created_at = 0\<rparr>]"
    by (simp add: get_expenses_def select_columns_def example_db_def)
  have day: "\<And>d. dt_date (to_datetime d) = d"
    by (simp add: dt_date_def to_datetime_def usec_per_day_def)
  have out: "daily_series (get_expenses example_db 1) 2 = [(738905, 15 / 2), (738917, 30)]"
    unfolding df
    by (simp add: daily_series_def groupby_date_sum_def dates_present_def tail_def day)
  have present: "738890 \<in> (\<lambda>r. dt_date (date r)) ` set (get_expenses example_db 1)"
    unfolding df by (simp add: day)
  have absent: "738890 \<notin> fst ` set (daily_series (get_expenses example_db 1) 2)"
    unfolding out by simp
  from daily_series_contract [of "get_expenses example_db 1" 2] present absent
  have "\<forall>d' \<in> fst ` set (daily_series (get_expenses example_db 1) 2). 738890 < d'"
    by blast
  then have "list_all (\<lambda>d'. 738890 < d') (map fst (daily_series (get_expenses example_db 1) 2))"
    by (simp add: list_all_iff)
  with out present absent show ?thesis
    by blast
qed

subsection \<open>Top expenses\<close>




subsection \<open>Category summary\<close>




end
